theory Spec2Isabelle
  imports Complex_Main
begin

section \<open>Stock backtester: performance metrics, normalisation and the comparison run\<close>

text \<open>
  The embedding follows \<^verbatim>\<open>src/backtester.py\<close>.  A pandas Series of closing prices is
  the list of its values (the date index is carried along unchanged by every operation used
  here and plays no part in the arithmetic).  Python floats are modelled by exact reals;
  the one non-number that the code produces on positive prices, pandas' NaN, is
  \<open>None\<close> of an option type.  Prices are positive (closing prices of an instrument), so
  every division and every power below is defined.
\<close>

subsection \<open>Errors and constants\<close>

datatype py_error = IndexError | ValueError | AttributeError | DownloadFailed

datatype index_choice = SP500 | NASDAQ | DOW | RUSSELL2000

fun INDEX_MAPPING :: "index_choice \<Rightarrow> string" where
  "INDEX_MAPPING SP500 = ''^GSPC''"
| "INDEX_MAPPING NASDAQ = ''^IXIC''"
| "INDEX_MAPPING DOW = ''^DJI''"
| "INDEX_MAPPING RUSSELL2000 = ''^RUT''"

text \<open>The command-line spelling of an index choice (the keys of the mapping).\<close>

fun index_key :: "index_choice \<Rightarrow> string" where
  "index_key SP500 = ''SP500''"
| "index_key NASDAQ = ''NASDAQ''"
| "index_key DOW = ''DOW''"
| "index_key RUSSELL2000 = ''RUSSELL2000''"

definition RISK_FREE_RATE :: real where
  "RISK_FREE_RATE = 4 / 100"

subsection \<open>The pandas operations used by the calculator\<close>

text \<open>\<^verbatim>\<open>Series.pct_change()\<close>: NaN at the first position, then \<open>p\<^sub>i / p\<^sub>i\<^sub>-\<^sub>1 - 1\<close>.\<close>

fun pct_change :: "real list \<Rightarrow> real option list" where
  "pct_change [] = []"
| "pct_change (p # ps) = None # map2 (\<lambda>a b. Some (b / a - 1)) (p # ps) ps"

text \<open>\<^verbatim>\<open>Series.dropna()\<close>: the entries that are not NaN, in order.\<close>

fun dropna :: "real option list \<Rightarrow> real list" where
  "dropna [] = []"
| "dropna (None # xs) = dropna xs"
| "dropna (Some x # xs) = x # dropna xs"

definition mean :: "real list \<Rightarrow> real" where
  "mean xs = sum_list xs / real (length xs)"

text \<open>\<^verbatim>\<open>Series.std()\<close> (one delta degree of freedom): NaN on fewer than two values.\<close>

definition std :: "real list \<Rightarrow> real option" where
  "std xs =
     (if length xs < 2 then None
      else Some (sqrt (sum_list (map (\<lambda>x. (x - mean xs)\<^sup>2) xs) / (real (length xs) - 1))))"

fun cumprod_acc :: "real \<Rightarrow> real list \<Rightarrow> real list" where
  "cumprod_acc a [] = []"
| "cumprod_acc a (x # xs) = (a * x) # cumprod_acc (a * x) xs"

fun cumprod :: "real list \<Rightarrow> real list" where
  "cumprod [] = []"
| "cumprod (x # xs) = x # cumprod_acc x xs"

fun cummax_acc :: "real \<Rightarrow> real list \<Rightarrow> real list" where
  "cummax_acc m [] = []"
| "cummax_acc m (x # xs) = max m x # cummax_acc (max m x) xs"

fun cummax :: "real list \<Rightarrow> real list" where
  "cummax [] = []"
| "cummax (x # xs) = x # cummax_acc x xs"

text \<open>\<^verbatim>\<open>Series.min()\<close>: NaN on the empty series.\<close>

fun series_min :: "real list \<Rightarrow> real option" where
  "series_min [] = None"
| "series_min (x # xs) = Some (fold min xs x)"

text \<open>
  \<^verbatim>\<open>round(x, ndigits)\<close> on a float: scale, round to the nearest integer with ties to the
  even one, scale back.
\<close>

definition round_half_even :: "real \<Rightarrow> int" where
  "round_half_even x =
     (let f = \<lfloor>x\<rfloor>; d = x - of_int f
      in if d < 1 / 2 then f else if 1 / 2 < d then f + 1
         else if even f then f else f + 1)"

definition py_round :: "real \<Rightarrow> nat \<Rightarrow> real" where
  "py_round x ndigits = of_int (round_half_even (x * 10 ^ ndigits)) / 10 ^ ndigits"

subsection \<open>\<^verbatim>\<open>calculate_metrics\<close>\<close>

record metrics =
  Ticker :: string
  Total_Return :: real
  Annualized_Return :: real
  Volatility :: "real option"
  Max_Drawdown :: "real option"
  Sharpe_Ratio :: real

text \<open>The local variables of the function, in the order of the source.\<close>

definition daily_returns :: "real list \<Rightarrow> real list" where
  "daily_returns prices = dropna (pct_change prices)"

definition total_return :: "real list \<Rightarrow> real" where
  "total_return prices = (last prices / hd prices - 1) * 100"

definition years :: "real list \<Rightarrow> real" where
  "years prices = real (length prices) / 252"

definition annualized_return :: "real list \<Rightarrow> real" where
  "annualized_return prices =
     ((1 + total_return prices / 100) powr (1 / years prices) - 1) * 100"

definition volatility :: "real list \<Rightarrow> real option" where
  "volatility prices = map_option (\<lambda>s. s * sqrt 252 * 100) (std (daily_returns prices))"

definition cumulative :: "real list \<Rightarrow> real list" where
  "cumulative prices = cumprod (map (\<lambda>r. 1 + r) (daily_returns prices))"

definition rolling_max :: "real list \<Rightarrow> real list" where
  "rolling_max prices = cummax (cumulative prices)"

definition drawdown :: "real list \<Rightarrow> real list" where
  "drawdown prices = map2 (\<lambda>c m. (c - m) / m) (cumulative prices) (rolling_max prices)"

definition max_drawdown :: "real list \<Rightarrow> real option" where
  "max_drawdown prices = map_option (\<lambda>d. d * 100) (series_min (drawdown prices))"

definition excess_return :: "real list \<Rightarrow> real" where
  "excess_return prices = annualized_return prices / 100 - RISK_FREE_RATE"

text \<open>A comparison with NaN is false, so a NaN volatility takes the else branch.\<close>

definition sharpe_ratio :: "real list \<Rightarrow> real" where
  "sharpe_ratio prices =
     (case volatility prices of
        Some v \<Rightarrow> if v > 0 then excess_return prices / (v / 100) else 0
      | None \<Rightarrow> 0)"

text \<open>
  \<^verbatim>\<open>prices.iloc[-1]\<close> and \<^verbatim>\<open>prices.iloc[0]\<close> raise IndexError on the empty series; rounding a
  NaN gives NaN.
\<close>

definition calculate_metrics :: "real list \<Rightarrow> string \<Rightarrow> py_error + metrics" where
  "calculate_metrics prices name =
     (if prices = [] then Inl IndexError
      else Inr \<lparr>Ticker = name,
                Total_Return = py_round (total_return prices) 2,
                Annualized_Return = py_round (annualized_return prices) 2,
                Volatility = map_option (\<lambda>v. py_round v 2) (volatility prices),
                Max_Drawdown = map_option (\<lambda>d. py_round d 2) (max_drawdown prices),
                Sharpe_Ratio = py_round (sharpe_ratio prices) 2\<rparr>)"

subsection \<open>\<^verbatim>\<open>generate_chart\<close>: rebasing a series to 100\<close>

text \<open>\<^verbatim>\<open>normalized = prices / prices.iloc[0] * 100\<close>, elementwise on the values of the series.\<close>

definition normalized :: "real list \<Rightarrow> py_error + real list" where
  "normalized prices =
     (case prices of
        [] \<Rightarrow> Inl IndexError
      | p0 # _ \<Rightarrow> Inr (map (\<lambda>p. p / p0 * 100) prices))"

subsection \<open>\<^verbatim>\<open>main\<close>: the comparison run\<close>

record args =
  arg_tickers :: "string list"
  arg_start :: int
  arg_end :: int
  arg_index :: "index_choice option"
  arg_output_dir :: string

text \<open>
  The market-data supplier \<^verbatim>\<open>yf.download\<close>, seen through the column that the run reads:
  for a symbol and the two years of the window, the closing prices, or an exception.
\<close>

type_synonym supplier = "string \<Rightarrow> int \<Rightarrow> int \<Rightarrow> py_error + real list"

definition fetch_data :: "supplier \<Rightarrow> string \<Rightarrow> int \<Rightarrow> int \<Rightarrow> py_error + real list" where
  "fetch_data download ticker start_date end_date =
     (case download ticker start_date end_date of
        Inl err \<Rightarrow> Inl err
      | Inr data \<Rightarrow> if data = [] then Inl ValueError else Inr data)"

text \<open>\<^verbatim>\<open>.squeeze()\<close> turns a one-element series into a bare number.\<close>

datatype squeezed = Scalar real | Series "real list"

fun squeeze :: "real list \<Rightarrow> squeezed" where
  "squeeze [x] = Scalar x"
| "squeeze xs = Series xs"

text \<open>
  The body of a \<^verbatim>\<open>try\<close> block: fetch under \<open>symbol\<close>, compute the metrics under
  \<open>label\<close>.  A bare number has no \<^verbatim>\<open>pct_change\<close>, which is an AttributeError.
\<close>

definition try_body ::
    "supplier \<Rightarrow> string \<Rightarrow> string \<Rightarrow> int \<Rightarrow> int \<Rightarrow> py_error + (metrics \<times> real list)" where
  "try_body download symbol label start_date end_date =
     (case fetch_data download symbol start_date end_date of
        Inl err \<Rightarrow> Inl err
      | Inr data \<Rightarrow>
          (case squeeze data of
             Scalar x \<Rightarrow> Inl AttributeError
           | Series prices \<Rightarrow>
               (case calculate_metrics prices label of
                  Inl err \<Rightarrow> Inl err
                | Inr m \<Rightarrow> Inr (m, prices))))"

text \<open>
  A Python dict keeps its keys in the order of their first insertion; assigning to a key
  that is present replaces the value where it stands.
\<close>

definition dict_set :: "(string \<times> 'v) list \<Rightarrow> string \<Rightarrow> 'v \<Rightarrow> (string \<times> 'v) list" where
  "dict_set d k v =
     (if k \<in> fst ` set d then map (\<lambda>(k', v'). if k' = k then (k', v) else (k', v')) d
      else d @ [(k, v)])"

type_synonym run_state = "metrics list \<times> (string \<times> real list) list"

text \<open>The loop over the tickers; \<^verbatim>\<open>except Exception\<close> prints and goes on.\<close>

fun ticker_loop :: "supplier \<Rightarrow> int \<Rightarrow> int \<Rightarrow> string list \<Rightarrow> run_state \<Rightarrow> run_state" where
  "ticker_loop download s e [] st = st"
| "ticker_loop download s e (ticker # rest) (results, price_data) =
     (case try_body download ticker ticker s e of
        Inl err \<Rightarrow> ticker_loop download s e rest (results, price_data)
      | Inr (m, prices) \<Rightarrow>
          ticker_loop download s e rest (results @ [m], dict_set price_data ticker prices))"

text \<open>The index, when one is chosen: fetched under its symbol, stored under its key.\<close>

definition index_step ::
    "supplier \<Rightarrow> int \<Rightarrow> int \<Rightarrow> index_choice option \<Rightarrow> run_state \<Rightarrow> run_state" where
  "index_step download s e ix st =
     (case ix of
        None \<Rightarrow> st
      | Some i \<Rightarrow>
          (case try_body download (INDEX_MAPPING i) (index_key i) s e of
             Inl err \<Rightarrow> st
           | Inr (m, prices) \<Rightarrow> (fst st @ [m], dict_set (snd st) (index_key i) prices)))"

text \<open>
  The three ends of \<^verbatim>\<open>main\<close>.  Each is a normal return: the first two after printing a
  message, the third after the table, the CSV file and the chart were produced from the
  two collections.
\<close>

datatype outcome =
    Date_Range_Rejected
  | No_Data_To_Analyze
  | Completed "metrics list" "(string \<times> real list) list"

definition main :: "supplier \<Rightarrow> args \<Rightarrow> py_error + outcome" where
  "main download a =
     (if arg_start a > arg_end a then Inr Date_Range_Rejected
      else
        let st = ticker_loop download (arg_start a) (arg_end a) (arg_tickers a) ([], []);
            st' = index_step download (arg_start a) (arg_end a) (arg_index a) st
        in if fst st' = [] then Inr No_Data_To_Analyze
           else Inr (Completed (fst st') (snd st')))"

text \<open>
  The launcher runs the backtester as a child process with \<^verbatim>\<open>check=True\<close>: the child's exit
  status is 0 when \<^verbatim>\<open>main\<close> returns and 1 when an exception escapes it, and the launcher
  announces success exactly on status 0 (the user having confirmed the run).
\<close>

definition exit_status :: "py_error + outcome \<Rightarrow> int" where
  "exit_status r = (if isl r then 1 else 0)"

definition confirm_and_run :: "supplier \<Rightarrow> args \<Rightarrow> bool" where
  "confirm_and_run download a = (exit_status (main download a) = 0)"

subsection \<open>The formulas of the specification, in its own words\<close>

text \<open>Daily simple returns \<open>r\<^sub>i = p\<^sub>i / p\<^sub>i\<^sub>-\<^sub>1 - 1\<close> for \<open>i = 1..n-1\<close>.\<close>

definition spec_returns :: "real list \<Rightarrow> real list" where
  "spec_returns p = map (\<lambda>i. p ! i / p ! (i - 1) - 1) [1..<length p]"

text \<open>Sample standard deviation: squared deviations from the mean, divided by \<open>n - 1\<close>.\<close>

definition spec_sample_std :: "real list \<Rightarrow> real" where
  "spec_sample_std r =
     (let n = length r; m = (\<Sum>i<n. r ! i) / real n
      in sqrt ((\<Sum>i<n. (r ! i - m)\<^sup>2) / (real n - 1)))"

text \<open>
  The cumulative growth path with its start: \<open>c\<^sub>0 = 1\<close> and \<open>c\<^sub>i\<close> the product of the first
  \<open>i\<close> growth factors; the running maximum up to and including a point; the most negative
  drawdown, in percent.
\<close>

definition spec_growth_path :: "real list \<Rightarrow> real list" where
  "spec_growth_path r = map (\<lambda>i. \<Prod>j<i. 1 + r ! j) [0..<Suc (length r)]"

definition spec_running_max :: "real list \<Rightarrow> nat \<Rightarrow> real" where
  "spec_running_max c i = Max (set (take (Suc i) c))"

definition spec_max_drawdown :: "real list \<Rightarrow> real" where
  "spec_max_drawdown prices =
     (let c = spec_growth_path (spec_returns prices)
      in Min (set (map (\<lambda>i. (c ! i - spec_running_max c i) / spec_running_max c i)
                       [0..<length c])) * 100)"

text \<open>A symbol is usable when the supplier delivers at least two closing prices for it.\<close>

definition usable :: "supplier \<Rightarrow> int \<Rightarrow> int \<Rightarrow> string \<Rightarrow> bool" where
  "usable download s e symbol =
     (case download symbol s e of Inl err \<Rightarrow> False | Inr data \<Rightarrow> 2 \<le> length data)"

text \<open>
  The entries a run is expected to report, as pairs of the label an entry is stored under
  and the symbol it is fetched under: the usable tickers in the order of the command line,
  then the index if one is chosen and usable.
\<close>

definition succeeded :: "supplier \<Rightarrow> args \<Rightarrow> (string \<times> string) list" where
  "succeeded download a =
     map (\<lambda>t. (t, t)) (filter (usable download (arg_start a) (arg_end a)) (arg_tickers a)) @
     (case arg_index a of
        None \<Rightarrow> []
      | Some i \<Rightarrow>
          if usable download (arg_start a) (arg_end a) (INDEX_MAPPING i)
          then [(index_key i, INDEX_MAPPING i)] else [])"

text \<open>What a usable symbol contributes: its prices, and their metrics under a label.\<close>

definition prices_of :: "supplier \<Rightarrow> args \<Rightarrow> string \<Rightarrow> real list" where
  "prices_of download a symbol = projr (download symbol (arg_start a) (arg_end a))"

definition metrics_of :: "supplier \<Rightarrow> args \<Rightarrow> string \<times> string \<Rightarrow> metrics" where
  "metrics_of download a entry =
     projr (calculate_metrics (prices_of download a (snd entry)) (fst entry))"

section \<open>Properties\<close>

lemmas metric_defs = daily_returns_def total_return_def years_def annualized_return_def
  volatility_def cumulative_def rolling_max_def drawdown_def max_drawdown_def excess_return_def
  sharpe_ratio_def std_def mean_def RISK_FREE_RATE_def

subsection \<open>Rounding\<close>

lemma py_round_0: "py_round 0 n = 0"
  by (simp add: py_round_def round_half_even_def)

lemma round_half_even_nonpos: "x \<le> 0 \<Longrightarrow> round_half_even x \<le> 0"
proof -
  assume x: "x \<le> 0"
  then have f: "\<lfloor>x\<rfloor> \<le> 0"
    by (simp add: floor_le_zero)
  show ?thesis
  proof (cases "x = 0")
    case True
    then show ?thesis by (simp add: round_half_even_def)
  next
    case False
    with x have "x < 0" by simp
    then have "\<lfloor>x\<rfloor> < 0" by (simp add: floor_less_zero)
    then show ?thesis
      by (simp add: round_half_even_def Let_def)
  qed
qed

lemma round_half_even_nonneg: "0 \<le> x \<Longrightarrow> 0 \<le> round_half_even x"
  by (simp add: round_half_even_def Let_def)

lemma py_round_nonpos: "x \<le> 0 \<Longrightarrow> py_round x n \<le> 0"
  by (simp add: py_round_def round_half_even_nonpos mult_le_0_iff divide_le_0_iff)

lemma py_round_nonneg: "0 \<le> x \<Longrightarrow> 0 \<le> py_round x n"
  by (simp add: py_round_def round_half_even_nonneg)

lemma round_half_even_below:
  assumes "of_int k \<le> x" and "x < of_int k + 1 / 2"
  shows "round_half_even x = k"
proof -
  have "\<lfloor>x\<rfloor> = k"
    using assms by (intro floor_unique) simp_all
  then show ?thesis
    using assms by (simp add: round_half_even_def Let_def)
qed

lemma round_half_even_above:
  assumes "of_int k + 1 / 2 < x" and "x < of_int k + 1"
  shows "round_half_even x = k + 1"
proof -
  have "\<lfloor>x\<rfloor> = k"
    using assms by (intro floor_unique) simp_all
  then show ?thesis
    using assms by (simp add: round_half_even_def Let_def)
qed

subsection \<open>Daily returns and their standard deviation\<close>

lemma dropna_map_Some: "dropna (map (\<lambda>z. Some (g z)) zs) = map g zs"
  by (induction zs) simp_all

lemma daily_returns_Cons: "daily_returns (p # ps) = map2 (\<lambda>a b. b / a - 1) (p # ps) ps"
proof -
  have "map2 (\<lambda>a b. Some (b / a - 1)) (p # ps) ps
        = map (\<lambda>z. Some (case z of (a, b) \<Rightarrow> b / a - 1)) (zip (p # ps) ps)"
    by (simp add: case_prod_unfold)
  then show ?thesis
    by (simp only: daily_returns_def pct_change.simps dropna.simps dropna_map_Some)
qed

lemma daily_returns_Nil: "daily_returns [] = []"
  by (simp add: daily_returns_def)

lemma length_daily_returns: "length (daily_returns ps) = length ps - 1"
  by (cases ps) (simp_all add: daily_returns_Nil daily_returns_Cons)

lemma daily_returns_nth:
  assumes "i < length ps - 1"
  shows "daily_returns ps ! i = ps ! Suc i / ps ! i - 1"
proof (cases ps)
  case Nil
  with assms show ?thesis by simp
next
  case (Cons p qs)
  with assms have "i < length qs" by simp
  then show ?thesis
    by (simp add: Cons daily_returns_Cons)
qed

lemma daily_returns_spec: "daily_returns ps = spec_returns ps"
proof (rule nth_equalityI)
  show "length (daily_returns ps) = length (spec_returns ps)"
    by (simp add: length_daily_returns spec_returns_def)
next
  fix i assume "i < length (daily_returns ps)"
  then have i: "i < length ps - 1" by (simp add: length_daily_returns)
  then show "daily_returns ps ! i = spec_returns ps ! i"
    by (simp add: daily_returns_nth spec_returns_def)
qed

lemma sum_list_nth_lessThan: "sum_list (map f xs) = (\<Sum>i<length xs. f (xs ! i))"
proof -
  have "sum_list (map f xs) = (\<Sum>i = 0..<length (map f xs). map f xs ! i)"
    by (rule sum_list_sum_nth)
  also have "\<dots> = (\<Sum>i<length xs. f (xs ! i))"
    by (simp add: atLeast0LessThan)
  finally show ?thesis .
qed

lemma std_spec:
  assumes "2 \<le> length xs"
  shows "std xs = Some (spec_sample_std xs)"
proof -
  have m: "mean xs = (\<Sum>i<length xs. xs ! i) / real (length xs)"
    using sum_list_nth_lessThan [of "\<lambda>x. x" xs] by (simp add: mean_def)
  have "sum_list (map (\<lambda>x. (x - mean xs)\<^sup>2) xs) = (\<Sum>i<length xs. (xs ! i - mean xs)\<^sup>2)"
    by (rule sum_list_nth_lessThan)
  with assms m show ?thesis
    by (simp add: std_def spec_sample_std_def Let_def)
qed

lemma std_None: "length xs < 2 \<Longrightarrow> std xs = None"
  by (simp add: std_def)

lemma std_nonneg:
  assumes "std xs = Some s"
  shows "0 \<le> s"
proof -
  from assms have n: "2 \<le> length xs"
    and s: "s = sqrt (sum_list (map (\<lambda>x. (x - mean xs)\<^sup>2) xs) / (real (length xs) - 1))"
    by (auto simp add: std_def split: if_splits)
  have "0 \<le> sum_list (map (\<lambda>x. (x - mean xs)\<^sup>2) xs)"
    by (rule sum_list_nonneg) auto
  moreover have "0 < real (length xs) - 1"
    using n by simp
  ultimately show ?thesis
    unfolding s by simp
qed

lemma volatility_nonneg: "volatility ps = Some v \<Longrightarrow> 0 \<le> v"
  by (auto simp add: volatility_def dest: std_nonneg)

lemma calculate_metrics_Inr:
  assumes "prices \<noteq> []"
  shows "calculate_metrics prices name =
     Inr \<lparr>Ticker = name,
          Total_Return = py_round (total_return prices) 2,
          Annualized_Return = py_round (annualized_return prices) 2,
          Volatility = map_option (\<lambda>v. py_round v 2) (volatility prices),
          Max_Drawdown = map_option (\<lambda>d. py_round d 2) (max_drawdown prices),
          Sharpe_Ratio = py_round (sharpe_ratio prices) 2\<rparr>"
  using assms by (simp add: calculate_metrics_def)

subsection \<open>The growth path of a positive series\<close>

text \<open>
  On positive prices the products of the growth factors telescope: the path that the code
  builds for the series \<open>p\<^sub>0, p\<^sub>1, \<dots>\<close> is \<open>p\<^sub>1 / p\<^sub>0, p\<^sub>2 / p\<^sub>0, \<dots>\<close>.  It has one entry per
  return and no entry for the first price.
\<close>

lemma cumprod_acc_one: "cumprod xs = cumprod_acc 1 xs"
  by (cases xs) simp_all

lemma cumprod_acc_ratios:
  assumes "\<forall>x\<in>set (p # ps). x \<noteq> 0"
  shows "cumprod_acc a (map2 (\<lambda>x y. y / x) (p # ps) ps) = map (\<lambda>q. a * q / p) ps"
  using assms
proof (induction ps arbitrary: p a)
  case Nil
  show ?case by simp
next
  case (Cons q qs)
  from Cons.prems have q: "q \<noteq> 0" and rest: "\<forall>x\<in>set (q # qs). x \<noteq> 0"
    by simp_all
  have "cumprod_acc (a * (q / p)) (map2 (\<lambda>x y. y / x) (q # qs) qs)
        = map (\<lambda>r. a * (q / p) * r / q) qs"
    by (rule Cons.IH [OF rest])
  also have "\<dots> = map (\<lambda>r. a * r / p) qs"
    using q by simp
  finally show ?case
    by simp
qed

lemma cumulative_Cons:
  assumes "\<forall>x\<in>set (p # ps). 0 < x"
  shows "cumulative (p # ps) = map (\<lambda>q. q / p) ps"
proof -
  have nz: "\<forall>x\<in>set (p # ps). x \<noteq> 0"
    using assms by auto
  have "map (\<lambda>r. 1 + r) (daily_returns (p # ps)) = map2 (\<lambda>x y. y / x) (p # ps) ps"
    by (simp add: daily_returns_Cons case_prod_unfold)
  then have "cumulative (p # ps) = cumprod_acc 1 (map2 (\<lambda>x y. y / x) (p # ps) ps)"
    by (simp add: cumulative_def cumprod_acc_one)
  also have "\<dots> = map (\<lambda>q. 1 * q / p) ps"
    by (rule cumprod_acc_ratios [OF nz])
  finally show ?thesis
    by simp
qed

lemma length_cummax_acc: "length (cummax_acc m xs) = length xs"
  by (induction xs arbitrary: m) simp_all

lemma length_cummax: "length (cummax xs) = length xs"
  by (cases xs) (simp_all add: length_cummax_acc)

lemma cummax_acc_bounds:
  assumes "0 < m"
  shows "\<forall>(c, M)\<in>set (zip xs (cummax_acc m xs)). c \<le> M \<and> 0 < M"
  using assms
proof (induction xs arbitrary: m)
  case Nil
  show ?case by simp
next
  case (Cons x xs)
  have "0 < max m x"
    using Cons.prems by simp
  from Cons.IH [OF this] show ?case
    using Cons.prems by simp
qed

lemma cummax_bounds:
  assumes "\<forall>x\<in>set xs. 0 < x"
  shows "\<forall>(c, M)\<in>set (zip xs (cummax xs)). c \<le> M \<and> 0 < M"
proof (cases xs)
  case Nil
  then show ?thesis by simp
next
  case (Cons x ys)
  with assms have "0 < x" by simp
  from cummax_acc_bounds [OF this, of ys] show ?thesis
    using Cons \<open>0 < x\<close> by simp
qed

lemma cummax_acc_sorted: "sorted (m # xs) \<Longrightarrow> cummax_acc m xs = xs"
proof (induction xs arbitrary: m)
  case Nil
  show ?case by simp
next
  case (Cons x xs)
  from Cons.prems have "m \<le> x" and "sorted (x # xs)"
    by simp_all
  then show ?case
    using Cons.IH [of x] by (simp add: max_absorb2)
qed

lemma cummax_sorted: "sorted xs \<Longrightarrow> cummax xs = xs"
  by (cases xs) (simp_all add: cummax_acc_sorted)

lemma series_min_Min: "xs \<noteq> [] \<Longrightarrow> series_min xs = Some (Min (set xs))"
proof (cases xs)
  case Nil
  assume "xs \<noteq> []"
  with Nil show ?thesis by simp
next
  case (Cons x ys)
  have "Min (set (x # ys)) = fold min ys x"
    by (rule Min.set_eq_fold)
  with Cons show ?thesis by simp
qed

lemma series_min_nonpos:
  assumes "xs \<noteq> []" and "\<forall>x\<in>set xs. x \<le> 0"
  shows "\<exists>d. series_min xs = Some d \<and> d \<le> 0"
proof -
  have "Min (set xs) \<in> set xs"
    using assms(1) by (intro Min_in) simp_all
  with assms show ?thesis
    by (auto simp add: series_min_Min)
qed

lemma series_min_zeros:
  assumes "xs \<noteq> []" and "\<forall>x\<in>set xs. x = 0"
  shows "series_min xs = Some 0"
proof -
  have "Min (set xs) \<in> set xs"
    using assms(1) by (intro Min_in) simp_all
  with assms show ?thesis
    by (auto simp add: series_min_Min)
qed

lemma cumulative_pos:
  assumes "\<forall>x\<in>set prices. 0 < x"
  shows "\<forall>c\<in>set (cumulative prices). 0 < c"
proof (cases prices)
  case Nil
  then show ?thesis by (simp add: cumulative_def daily_returns_Nil)
next
  case (Cons p ps)
  with assms show ?thesis
    by (auto simp add: cumulative_Cons)
qed

lemma length_cumulative:
  assumes "\<forall>x\<in>set prices. 0 < x"
  shows "length (cumulative prices) = length prices - 1"
proof (cases prices)
  case Nil
  then show ?thesis by (simp add: cumulative_def daily_returns_Nil)
next
  case (Cons p ps)
  with assms show ?thesis
    by (simp add: cumulative_Cons)
qed

lemma drawdown_nonpos:
  assumes "\<forall>x\<in>set prices. 0 < x"
  shows "\<forall>d\<in>set (drawdown prices). d \<le> 0"
proof
  fix d assume "d \<in> set (drawdown prices)"
  then obtain c M where cM: "(c, M) \<in> set (zip (cumulative prices) (cummax (cumulative prices)))"
    and d: "d = (c - M) / M"
    by (auto simp add: drawdown_def rolling_max_def)
  from cummax_bounds [OF cumulative_pos [OF assms]] cM have "c \<le> M" and "0 < M"
    by auto
  then show "d \<le> 0"
    unfolding d by (simp add: divide_le_0_iff)
qed

lemma length_drawdown:
  assumes "\<forall>x\<in>set prices. 0 < x"
  shows "length (drawdown prices) = length prices - 1"
  by (simp add: drawdown_def rolling_max_def length_cummax length_cumulative [OF assms])

lemma max_drawdown_nonpos:
  assumes "2 \<le> length prices" and "\<forall>x\<in>set prices. 0 < x"
  shows "\<exists>d. max_drawdown prices = Some d \<and> d \<le> 0"
proof -
  have "drawdown prices \<noteq> []"
    using length_drawdown [OF assms(2)] assms(1) by auto
  from series_min_nonpos [OF this drawdown_nonpos [OF assms(2)]]
  obtain d where "series_min (drawdown prices) = Some d" and "d \<le> 0"
    by blast
  then show ?thesis
    by (simp add: max_drawdown_def mult_le_0_iff)
qed

lemma drawdown_sorted:
  assumes "\<forall>x\<in>set prices. 0 < x" and "sorted prices"
  shows "\<forall>d\<in>set (drawdown prices). d = 0"
proof (cases prices)
  case Nil
  then show ?thesis
    by (simp add: drawdown_def cumulative_def rolling_max_def daily_returns_Nil)
next
  case (Cons p ps)
  from assms Cons have p: "0 < p" and pos: "\<forall>x\<in>set (p # ps). 0 < x" and s: "sorted ps"
    by simp_all
  have c: "cumulative prices = map (\<lambda>q. q / p) ps"
    unfolding Cons by (rule cumulative_Cons [OF pos])
  have "sorted (map (\<lambda>q. q / p) ps)"
    using s p by (simp add: sorted_wrt_map divide_right_mono sorted_wrt_mono_rel [of ps "(\<le>)"])
  then have "rolling_max prices = cumulative prices"
    by (simp add: rolling_max_def c cummax_sorted)
  then show ?thesis
    by (auto simp add: drawdown_def zip_same)
qed

lemma max_drawdown_sorted:
  assumes "2 \<le> length prices" and "\<forall>x\<in>set prices. 0 < x" and "sorted prices"
  shows "max_drawdown prices = Some 0"
proof -
  have "drawdown prices \<noteq> []"
    using length_drawdown [OF assms(2)] assms(1) by auto
  from series_min_zeros [OF this drawdown_sorted [OF assms(2,3)]] show ?thesis
    by (simp add: max_drawdown_def)
qed

lemma total_return_sgn:
  assumes "prices \<noteq> []" and "\<forall>p\<in>set prices. 0 < p"
  shows "sgn (total_return prices) = sgn (last prices - hd prices)"
proof -
  have h: "0 < hd prices"
    using assms by simp
  have pos: "(0 < total_return prices) = (0 < last prices - hd prices)"
    using h by (simp add: total_return_def less_divide_eq)
  have zero: "(total_return prices = 0) = (last prices - hd prices = 0)"
    using h by (simp add: total_return_def divide_eq_eq)
  show ?thesis
    unfolding sgn_if pos zero by (rule refl)
qed

subsection \<open>Constant series, scaled series\<close>

lemma daily_returns_replicate:
  assumes "p \<noteq> 0"
  shows "daily_returns (replicate n p) = replicate (n - 1) 0"
proof (rule nth_equalityI)
  show "length (daily_returns (replicate n p)) = length (replicate (n - 1) (0::real))"
    by (simp add: length_daily_returns)
next
  fix i assume "i < length (daily_returns (replicate n p))"
  then have "i < n - 1"
    by (simp add: length_daily_returns)
  then show "daily_returns (replicate n p) ! i = replicate (n - 1) 0 ! i"
    using assms by (simp add: daily_returns_nth)
qed

lemma std_replicate_0: "std (replicate k 0) = (if k < 2 then None else Some 0)"
  by (simp add: std_def mean_def sum_list_replicate)

lemma daily_returns_scale:
  assumes "c \<noteq> 0"
  shows "daily_returns (map ((*) c) prices) = daily_returns prices"
proof (rule nth_equalityI)
  show "length (daily_returns (map ((*) c) prices)) = length (daily_returns prices)"
    by (simp add: length_daily_returns)
next
  fix i assume "i < length (daily_returns (map ((*) c) prices))"
  then have "i < length prices - 1"
    by (simp add: length_daily_returns)
  then show "daily_returns (map ((*) c) prices) ! i = daily_returns prices ! i"
    using assms by (simp add: daily_returns_nth)
qed

lemma total_return_scale:
  assumes "c \<noteq> 0" and "prices \<noteq> []"
  shows "total_return (map ((*) c) prices) = total_return prices"
  using assms by (simp add: total_return_def hd_map last_map)

lemma normalized_scale:
  assumes "c \<noteq> 0"
  shows "normalized (map ((*) c) prices) = normalized prices"
  using assms by (cases prices) (simp_all add: normalized_def)

subsection \<open>A series with a rational volatility\<close>

text \<open>
  The series 1000, 1100, 1320, 924 has the returns 0.1, 0.2 and -0.3, whose sample variance is
  0.07; with four prices the annualisation exponent is 63, a natural number.
\<close>

lemma sqrt_7_252: "sqrt (7 / 100) * sqrt 252 * 100 = 420"
proof -
  have "sqrt (7 / 100) * sqrt 252 = sqrt ((42 / 10)\<^sup>2)"
    by (simp add: real_sqrt_mult [symmetric] power2_eq_square)
  also have "\<dots> = 42 / 10"
    by simp
  finally have e: "sqrt (7 / 100) * sqrt 252 = 42 / 10" .
  show ?thesis
    unfolding e by simp
qed

lemma volatility_example: "volatility [1000, 1100, 1320, 924] = Some 420"
proof -
  have "std (daily_returns [1000, 1100, 1320, 924]) = Some (sqrt (7 / 100))"
    by (simp add: std_def mean_def daily_returns_def power2_eq_square)
  then show ?thesis
    by (simp only: volatility_def option.map sqrt_7_252)
qed

lemma annualized_return_example:
  "annualized_return [1000, 1100, 1320, 924] = ((231 / 250) ^ 63 - 1) * 100"
  by (simp add: annualized_return_def total_return_def years_def)

lemma annualized_return_example_bounds:
  "- 9932 + 1 / 2 < annualized_return [1000, 1100, 1320, 924] * 100"
  "annualized_return [1000, 1100, 1320, 924] * 100 < - 9932 + 1"
  by (simp_all add: annualized_return_example power_divide)

lemma sharpe_ratio_example:
  "sharpe_ratio [1000, 1100, 1320, 924] = (annualized_return [1000, 1100, 1320, 924] / 100 - 4 / 100) / (420 / 100)"
  by (simp add: sharpe_ratio_def volatility_example excess_return_def RISK_FREE_RATE_def)

lemma sharpe_ratio_example_bounds:
  "- 25 \<le> sharpe_ratio [1000, 1100, 1320, 924] * 100"
  "sharpe_ratio [1000, 1100, 1320, 924] * 100 < - 25 + 1 / 2"
  using annualized_return_example_bounds by (simp_all add: sharpe_ratio_example)

lemma volatility_constant_example: "volatility [50, 50, 50] = Some 0"
  by (simp add: metric_defs)

lemma volatility_pair_example: "volatility [100, 110] = None"
  by (simp add: metric_defs)

lemma spec_max_drawdown_example: "spec_max_drawdown [100, 90, 95] = - 10"
  by code_simp

subsection \<open>The comparison run\<close>

lemma squeeze_Series: "2 \<le> length data \<Longrightarrow> squeeze data = Series data"
  by (cases data rule: squeeze.cases) simp_all

lemma try_body_usable:
  assumes "usable download s e symbol"
  shows "try_body download symbol label s e =
     Inr (projr (calculate_metrics (projr (download symbol s e)) label),
          projr (download symbol s e))"
proof -
  from assms obtain data where d: "download symbol s e = Inr data" and n: "2 \<le> length data"
    by (auto simp add: usable_def split: sum.splits)
  from n have ne: "data \<noteq> []"
    by auto
  then have "\<not> isl (calculate_metrics data label)"
    by (simp add: calculate_metrics_def)
  then obtain m where "calculate_metrics data label = Inr m"
    by (cases "calculate_metrics data label") simp_all
  then show ?thesis
    using ne by (simp add: try_body_def fetch_data_def d squeeze_Series [OF n])
qed

lemma try_body_unusable:
  assumes "\<not> usable download s e symbol"
  shows "isl (try_body download symbol label s e)"
proof (cases "download symbol s e")
  case (Inl err)
  then show ?thesis
    by (simp add: try_body_def fetch_data_def)
next
  case (Inr data)
  with assms have "length data < 2"
    by (simp add: usable_def)
  then consider "data = []" | x where "data = [x]"
    by (cases data rule: squeeze.cases) simp_all
  then show ?thesis
    by cases (simp_all add: try_body_def fetch_data_def Inr)
qed

lemma dict_set_fresh: "k \<notin> fst ` set d \<Longrightarrow> dict_set d k v = d @ [(k, v)]"
  by (simp add: dict_set_def)

lemma ticker_loop_eq:
  assumes "distinct (map fst pd @ ts)"
  shows "ticker_loop download s e ts (rs, pd) =
     (rs @ map (\<lambda>t. projr (calculate_metrics (projr (download t s e)) t))
             (filter (usable download s e) ts),
      pd @ map (\<lambda>t. (t, projr (download t s e))) (filter (usable download s e) ts))"
  using assms
proof (induction ts arbitrary: rs pd)
  case Nil
  show ?case by simp
next
  case (Cons t ts)
  show ?case
  proof (cases "usable download s e t")
    case True
    from Cons.prems have fresh: "t \<notin> fst ` set pd"
      by auto
    from Cons.prems have "distinct (map fst (pd @ [(t, projr (download t s e))]) @ ts)"
      by auto
    from Cons.IH [OF this] show ?thesis
      using True by (simp add: try_body_usable dict_set_fresh [OF fresh])
  next
    case False
    from Cons.prems have "distinct (map fst pd @ ts)"
      by auto
    from Cons.IH [OF this] try_body_unusable [OF False, of t] show ?thesis
      using False by (cases "try_body download t t s e") simp_all
  qed
qed

lemma Ticker_calculate_metrics:
  "prices \<noteq> [] \<Longrightarrow> Ticker (projr (calculate_metrics prices name)) = name"
  by (simp add: calculate_metrics_def)

lemma usable_prices: "usable download s e symbol \<Longrightarrow> projr (download symbol s e) \<noteq> []"
  by (auto simp add: usable_def split: sum.splits)

lemma main_eq:
  assumes "arg_start a \<le> arg_end a"
    and "distinct (arg_tickers a @ (case arg_index a of None \<Rightarrow> [] | Some i \<Rightarrow> [index_key i]))"
  shows "main download a =
     (if succeeded download a = [] then Inr No_Data_To_Analyze
      else Inr (Completed (map (metrics_of download a) (succeeded download a))
                          (map (\<lambda>entry. (fst entry, prices_of download a (snd entry)))
                               (succeeded download a))))"
proof -
  let ?s = "arg_start a" and ?e = "arg_end a"
  let ?good = "filter (usable download ?s ?e) (arg_tickers a)"
  let ?M = "\<lambda>t. projr (calculate_metrics (projr (download t ?s ?e)) t)"
  let ?D = "\<lambda>t. (t, projr (download t ?s ?e))"
  from assms(2) have "distinct (map fst ([] :: (string \<times> real list) list) @ arg_tickers a)"
    by simp
  from ticker_loop_eq [OF this, of download ?s ?e "[]"]
  have loop: "ticker_loop download ?s ?e (arg_tickers a) ([], []) = (map ?M ?good, map ?D ?good)"
    by simp
  have m: "map (metrics_of download a) (map (\<lambda>t. (t, t)) ?good) = map ?M ?good"
    by (simp add: metrics_of_def prices_of_def)
  have p: "map (\<lambda>entry. (fst entry, prices_of download a (snd entry))) (map (\<lambda>t. (t, t)) ?good)
      = map ?D ?good"
    by (simp add: prices_of_def)
  show ?thesis
  proof (cases "arg_index a")
    case None
    then show ?thesis
      using assms(1) m p
      by (simp add: main_def loop index_step_def succeeded_def Let_def)
  next
    case (Some i)
    show ?thesis
    proof (cases "usable download ?s ?e (INDEX_MAPPING i)")
      case True
      from assms(2) Some have "index_key i \<notin> fst ` set (map ?D ?good)"
        by (auto simp add: image_iff)
      then have "dict_set (map ?D ?good) (index_key i) (projr (download (INDEX_MAPPING i) ?s ?e))
          = map ?D ?good @ [(index_key i, projr (download (INDEX_MAPPING i) ?s ?e))]"
        by (rule dict_set_fresh)
      then show ?thesis
        using assms(1) m p True Some
        by (simp add: main_def loop index_step_def succeeded_def Let_def try_body_usable
            metrics_of_def prices_of_def)
    next
      case False
      from try_body_unusable [OF this, of "index_key i"] show ?thesis
        using assms(1) m p False Some
        by (cases "try_body download (INDEX_MAPPING i) (index_key i) ?s ?e")
           (simp_all add: main_def loop index_step_def succeeded_def Let_def)
    qed
  qed
qed

section \<open>The claims\<close>

text \<open>
  C1, as the code has it.  The calculator has no check of the length of the series.  On
  the empty series it fails with the IndexError of the first positional lookup.  On every
  series of one positive price it returns a record: total return 0, annualized return 0,
  Sharpe ratio 0, and NaN for the volatility and for the maximum drawdown.
\<close>

theorem short_series_outcome:
  "calculate_metrics [] name = Inl IndexError \<and>
   (0 < p \<longrightarrow> calculate_metrics [p] name =
     Inr \<lparr>Ticker = name, Total_Return = 0, Annualized_Return = 0, Volatility = None,
          Max_Drawdown = None, Sharpe_Ratio = 0\<rparr>)"
  by (simp add: calculate_metrics_def metric_defs py_round_0)

theorem short_series_outcome_witness:
  "calculate_metrics [] ''AAPL'' = Inl IndexError \<and>
   calculate_metrics [250] ''AAPL'' =
     Inr \<lparr>Ticker = ''AAPL'', Total_Return = 0, Annualized_Return = 0, Volatility = None,
          Max_Drawdown = None, Sharpe_Ratio = 0\<rparr>"
  using short_series_outcome [of "''AAPL''" 250] by simp

text \<open>
  C1 as stated fails: the series of the single price 100 has fewer than two points, and the
  calculator returns a record for it instead of failing.
\<close>

theorem single_price_returns_record:
  "length [100 :: real] < 2 \<and>
   \<not> isl (calculate_metrics [100] ''AAPL'') \<and>
   calculate_metrics [100] ''AAPL'' =
     Inr \<lparr>Ticker = ''AAPL'', Total_Return = 0, Annualized_Return = 0, Volatility = None,
          Max_Drawdown = None, Sharpe_Ratio = 0\<rparr>"
  by (simp add: calculate_metrics_def metric_defs py_round_0)

text \<open>
  C2.  The claim takes the drawdown over the growth path that starts at \<open>c\<^sub>0 = 1\<close>, so that a
  decline on the first return counts against the initial value.  The path of the code
  starts at the first return.  On the series 100, 90, 95 the code computes the path 0.9,
  0.95, whose running maximum is the path itself, and returns the maximum drawdown 0; the
  formula of the claim gives -10.
\<close>

theorem first_day_decline_drawdown:
  "cumulative [100, 90, 95] = [9 / 10, 19 / 20] \<and>
   rolling_max [100, 90, 95] = [9 / 10, 19 / 20] \<and>
   drawdown [100, 90, 95] = [0, 0] \<and>
   max_drawdown [100, 90, 95] = Some 0 \<and>
   Max_Drawdown (projr (calculate_metrics [100, 90, 95] ''AAPL'')) = Some 0 \<and>
   spec_max_drawdown [100, 90, 95] = - 10"
  by (simp add: calculate_metrics_def metric_defs py_round_0 spec_max_drawdown_example)

text \<open>
  C3, as the code has it.  On positive prices: for a series of at least three prices the
  volatility is the sample standard deviation of the daily simple returns (squared
  deviations divided by the number of returns less one) times \<open>sqrt 252\<close> times 100, and
  the record holds it rounded to two decimals; for a series of exactly two prices the
  volatility is NaN, in the computation and in the record.
\<close>

theorem volatility_sample_std:
  assumes "\<forall>p\<in>set prices. 0 < p"
  shows "(3 \<le> length prices \<longrightarrow>
            volatility prices = Some (spec_sample_std (spec_returns prices) * sqrt 252 * 100) \<and>
            (\<exists>m. calculate_metrics prices name = Inr m \<and>
                 Volatility m =
                   Some (py_round (spec_sample_std (spec_returns prices) * sqrt 252 * 100) 2))) \<and>
         (length prices = 2 \<longrightarrow>
            volatility prices = None \<and>
            (\<exists>m. calculate_metrics prices name = Inr m \<and> Volatility m = None))"
proof (intro conjI impI)
  assume n: "3 \<le> length prices"
  then have "2 \<le> length (daily_returns prices)"
    by (simp add: length_daily_returns)
  from std_spec [OF this]
  show v: "volatility prices = Some (spec_sample_std (spec_returns prices) * sqrt 252 * 100)"
    by (simp add: volatility_def daily_returns_spec)
  from n have "prices \<noteq> []"
    by auto
  then show "\<exists>m. calculate_metrics prices name = Inr m \<and>
      Volatility m = Some (py_round (spec_sample_std (spec_returns prices) * sqrt 252 * 100) 2)"
    by (simp add: calculate_metrics_Inr v)
next
  assume n: "length prices = 2"
  then show v: "volatility prices = None"
    by (simp add: volatility_def std_None length_daily_returns)
  from n have "prices \<noteq> []"
    by auto
  then show "\<exists>m. calculate_metrics prices name = Inr m \<and> Volatility m = None"
    by (simp add: calculate_metrics_Inr v)
qed

theorem volatility_sample_std_witness:
  "volatility [100, 110, 99, 121]
     = Some (spec_sample_std (spec_returns [100, 110, 99, 121]) * sqrt 252 * 100) \<and>
   (\<exists>m. calculate_metrics [100, 110, 99, 121] ''AAPL'' = Inr m \<and>
        Volatility m =
          Some (py_round (spec_sample_std (spec_returns [100, 110, 99, 121]) * sqrt 252 * 100) 2)) \<and>
   volatility [100, 110] = None \<and>
   (\<exists>m. calculate_metrics [100, 110] ''AAPL'' = Inr m \<and> Volatility m = None)"
  using volatility_sample_std [of "[100, 110, 99, 121]" "''AAPL''"]
    volatility_sample_std [of "[100, 110]" "''AAPL''"]
  by simp

text \<open>
  C3 as stated fails on exactly two prices: the volatility of the series 100, 110 is NaN,
  not 0.
\<close>

theorem two_prices_volatility_nan:
  "length [100, 110 :: real] = 2 \<and>
   \<not> isl (calculate_metrics [100, 110] ''AAPL'') \<and>
   Volatility (projr (calculate_metrics [100, 110] ''AAPL'')) = None \<and>
   Volatility (projr (calculate_metrics [100, 110] ''AAPL'')) \<noteq> Some 0"
  by (simp add: calculate_metrics_def metric_defs)

text \<open>
  C4, as the code has it.  For a constant series of a positive price and at least two
  prices, the calculator returns total return 0, annualized return 0, maximum drawdown 0
  and Sharpe ratio 0; the volatility is 0 when the series has at least three prices and
  NaN when it has exactly two.
\<close>

theorem constant_series_metrics:
  assumes "0 < p" and "2 \<le> length prices" and "\<forall>x\<in>set prices. x = p"
  shows "calculate_metrics prices name =
     Inr \<lparr>Ticker = name, Total_Return = 0, Annualized_Return = 0,
          Volatility = (if length prices = 2 then None else Some 0),
          Max_Drawdown = Some 0, Sharpe_Ratio = 0\<rparr>"
proof -
  let ?n = "length prices"
  have r: "prices = replicate ?n p"
    using assms(3) by (simp add: replicate_length_same)
  from assms(2) have ne: "prices \<noteq> []"
    by auto
  have pos: "\<forall>x\<in>set prices. 0 < x"
    using assms(1,3) by auto
  have "hd prices = p" and "last prices = p"
    using ne assms(3) by simp_all
  then have t: "total_return prices = 0"
    using assms(1) by (simp add: total_return_def)
  then have a: "annualized_return prices = 0"
    by (simp add: annualized_return_def)
  have "daily_returns prices = replicate (?n - 1) 0"
    using daily_returns_replicate [of p ?n] assms(1) r by simp
  then have v: "volatility prices = (if ?n = 2 then None else Some 0)"
    using assms(2) by (auto simp add: volatility_def std_replicate_0)
  then have s: "sharpe_ratio prices = 0"
    by (simp add: sharpe_ratio_def)
  have "sorted prices"
    by (subst r) (simp add: sorted_replicate)
  then have d: "max_drawdown prices = Some 0"
    by (rule max_drawdown_sorted [OF assms(2) pos])
  show ?thesis
    by (simp add: calculate_metrics_Inr [OF ne] t a v s d py_round_0)
qed

theorem constant_series_metrics_witness:
  "calculate_metrics [50, 50, 50] ''AAPL'' =
     Inr \<lparr>Ticker = ''AAPL'', Total_Return = 0, Annualized_Return = 0,
          Volatility = Some 0, Max_Drawdown = Some 0, Sharpe_Ratio = 0\<rparr> \<and>
   calculate_metrics [50, 50] ''AAPL'' =
     Inr \<lparr>Ticker = ''AAPL'', Total_Return = 0, Annualized_Return = 0,
          Volatility = None, Max_Drawdown = Some 0, Sharpe_Ratio = 0\<rparr>"
  using constant_series_metrics [of 50 "[50, 50, 50]" "''AAPL''"]
    constant_series_metrics [of 50 "[50, 50]" "''AAPL''"]
  by simp

text \<open>
  C4 as stated fails on the constant series 100, 100: its volatility is NaN, not 0.
\<close>

theorem constant_pair_volatility_nan:
  "\<not> isl (calculate_metrics [100, 100] ''AAPL'') \<and>
   Volatility (projr (calculate_metrics [100, 100] ''AAPL'')) = None \<and>
   Volatility (projr (calculate_metrics [100, 100] ''AAPL'')) \<noteq> Some 0"
  by (simp add: calculate_metrics_def metric_defs)

text \<open>
  C5.  On the series 100, 110, 99, 121 the daily returns are 0.10, -0.10 and 2/9 = 0.2222...;
  the cumulative path is 1.10, 0.99, 1.21 with running maximum 1.10, 1.10, 1.21, so the
  drawdown is -10% at the third price and 0 elsewhere; the returned total return is 21.0
  and the returned maximum drawdown is -10.0.
\<close>

theorem example_series_metrics:
  "daily_returns [100, 110, 99, 121] = [1/10, -1/10, 2/9] \<and>
   cumulative [100, 110, 99, 121] = [11/10, 99/100, 121/100] \<and>
   rolling_max [100, 110, 99, 121] = [11/10, 11/10, 121/100] \<and>
   drawdown [100, 110, 99, 121] = [0, -1/10, 0] \<and>
   \<not> isl (calculate_metrics [100, 110, 99, 121] name) \<and>
   Total_Return (projr (calculate_metrics [100, 110, 99, 121] name)) = 21 \<and>
   Max_Drawdown (projr (calculate_metrics [100, 110, 99, 121] name)) = Some (-10)"
  by (simp add: calculate_metrics_def metric_defs py_round_def round_half_even_def)

text \<open>
  C6, as the code has it.  For a series of at least two positive prices, the Sharpe ratio
  of the computation is (annualized return / 100 - 0.04) / (volatility / 100) when the
  volatility is a number other than 0, and 0 when the volatility is 0 or NaN; annualized
  return and volatility are the values before rounding.  The record holds this ratio
  rounded to two decimals, which is 0 whenever the volatility is 0 or NaN.
\<close>

theorem sharpe_ratio_formula:
  assumes "2 \<le> length prices" and "\<forall>p\<in>set prices. 0 < p"
  shows "\<exists>m. calculate_metrics prices name = Inr m \<and>
           Sharpe_Ratio m = py_round (sharpe_ratio prices) 2 \<and>
           sharpe_ratio prices =
             (case volatility prices of
                None \<Rightarrow> 0
              | Some v \<Rightarrow>
                  if v \<noteq> 0 then (annualized_return prices / 100 - 4 / 100) / (v / 100) else 0) \<and>
           (volatility prices \<in> {None, Some 0} \<longrightarrow> Sharpe_Ratio m = 0)"
proof -
  from assms(1) have ne: "prices \<noteq> []"
    by auto
  have f: "sharpe_ratio prices =
             (case volatility prices of
                None \<Rightarrow> 0
              | Some v \<Rightarrow>
                  if v \<noteq> 0 then (annualized_return prices / 100 - 4 / 100) / (v / 100) else 0)"
  proof (cases "volatility prices")
    case None
    then show ?thesis
      by (simp add: sharpe_ratio_def)
  next
    case (Some v)
    from volatility_nonneg [OF this] have "(0 < v) = (v \<noteq> 0)"
      by auto
    with Some show ?thesis
      by (simp add: sharpe_ratio_def excess_return_def RISK_FREE_RATE_def)
  qed
  have z: "volatility prices \<in> {None, Some 0} \<longrightarrow> py_round (sharpe_ratio prices) 2 = 0"
    by (auto simp add: sharpe_ratio_def py_round_0)
  show ?thesis
    using f z by (simp add: calculate_metrics_Inr [OF ne])
qed

theorem sharpe_ratio_formula_witness:
  "(\<exists>m. calculate_metrics [1000, 1100, 1320, 924] ''AAPL'' = Inr m \<and>
       Sharpe_Ratio m = py_round (sharpe_ratio [1000, 1100, 1320, 924]) 2 \<and>
       sharpe_ratio [1000, 1100, 1320, 924] =
         (annualized_return [1000, 1100, 1320, 924] / 100 - 4 / 100) / (420 / 100)) \<and>
   (\<exists>m. calculate_metrics [50, 50, 50] ''AAPL'' = Inr m \<and>
       sharpe_ratio [50, 50, 50] = 0 \<and> Sharpe_Ratio m = 0) \<and>
   (\<exists>m. calculate_metrics [100, 110] ''AAPL'' = Inr m \<and>
       sharpe_ratio [100, 110] = 0 \<and> Sharpe_Ratio m = 0)"
  using sharpe_ratio_formula [of "[1000, 1100, 1320, 924]" "''AAPL''"]
    sharpe_ratio_formula [of "[50, 50, 50]" "''AAPL''"]
    sharpe_ratio_formula [of "[100, 110]" "''AAPL''"]
  by (auto simp add: volatility_example volatility_constant_example volatility_pair_example)

text \<open>
  C6 as stated fails: on the series 1000, 1100, 1320, 924 the volatility is 420 (not 0)
  and the returned Sharpe ratio is -0.25, which is neither the value of the formula on
  the annualized return of the computation nor its value on the returned (rounded)
  annualized return -99.31.
\<close>

theorem sharpe_ratio_is_rounded:
  "Volatility (projr (calculate_metrics [1000, 1100, 1320, 924] ''AAPL'')) = Some 420 \<and>
   Annualized_Return (projr (calculate_metrics [1000, 1100, 1320, 924] ''AAPL'')) = - 9931 / 100 \<and>
   Sharpe_Ratio (projr (calculate_metrics [1000, 1100, 1320, 924] ''AAPL'')) = - 25 / 100 \<and>
   Sharpe_Ratio (projr (calculate_metrics [1000, 1100, 1320, 924] ''AAPL''))
     \<noteq> (annualized_return [1000, 1100, 1320, 924] / 100 - 4 / 100) / (420 / 100) \<and>
   Sharpe_Ratio (projr (calculate_metrics [1000, 1100, 1320, 924] ''AAPL''))
     \<noteq> (Annualized_Return (projr (calculate_metrics [1000, 1100, 1320, 924] ''AAPL'')) / 100
          - 4 / 100) / (420 / 100)"
proof -
  let ?ps = "[1000, 1100, 1320, 924] :: real list"
  have r1: "round_half_even (annualized_return ?ps * 10 ^ 2) = - 9932 + 1"
    using annualized_return_example_bounds by (intro round_half_even_above) simp_all
  have r2: "round_half_even (sharpe_ratio ?ps * 10 ^ 2) = - 25"
    using sharpe_ratio_example_bounds by (intro round_half_even_below) simp_all
  have a: "py_round (annualized_return ?ps) 2 = - 9931 / 100"
    unfolding py_round_def r1 by simp
  have sh: "py_round (sharpe_ratio ?ps) 2 = - 25 / 100"
    unfolding py_round_def r2 by simp
  have v: "py_round 420 2 = 420"
    by (simp add: py_round_def round_half_even_def)
  have ne: "sharpe_ratio ?ps \<noteq> - 25 / 100"
    using annualized_return_example_bounds by (simp add: sharpe_ratio_example)
  have m: "projr (calculate_metrics ?ps ''AAPL'') =
      \<lparr>Ticker = ''AAPL'', Total_Return = py_round (total_return ?ps) 2,
       Annualized_Return = - 9931 / 100, Volatility = Some 420,
       Max_Drawdown = map_option (\<lambda>d. py_round d 2) (max_drawdown ?ps),
       Sharpe_Ratio = - 25 / 100\<rparr>"
    by (simp add: calculate_metrics_def a sh v volatility_example)
  show ?thesis
    unfolding m sharpe_ratio_example [symmetric] using ne by simp
qed

text \<open>
  C7, as the code has it.  For a run whose date range is accepted and whose labels (the
  tickers and the key of the index, if one is chosen) are distinct: a symbol for which the supplier
  raises, reports no data or delivers a single price is left out of both collections, and
  the run goes on with the remaining symbols; the results and the price data hold exactly
  the usable symbols, the tickers in the order of the command line and the index last.
  If no symbol is usable, the run ends after its message without producing anything, by a
  normal return: no error reaches the caller, and the launcher announces success.
\<close>

theorem comparison_run_outputs:
  assumes "arg_start a \<le> arg_end a"
    and "distinct (arg_tickers a @ (case arg_index a of None \<Rightarrow> [] | Some i \<Rightarrow> [index_key i]))"
  shows "(succeeded download a = [] \<longrightarrow>
            main download a = Inr No_Data_To_Analyze \<and> confirm_and_run download a) \<and>
         (succeeded download a \<noteq> [] \<longrightarrow>
            (\<exists>results price_data.
               main download a = Inr (Completed results price_data) \<and>
               map Ticker results = map fst (succeeded download a) \<and>
               map fst price_data = map fst (succeeded download a) \<and>
               results = map (metrics_of download a) (succeeded download a) \<and>
               price_data = map (\<lambda>entry. (fst entry, prices_of download a (snd entry)))
                                (succeeded download a)))"
proof -
  note m = main_eq [OF assms, of download]
  have "Ticker (metrics_of download a entry) = fst entry"
    if "entry \<in> set (succeeded download a)" for entry
  proof -
    from that have "usable download (arg_start a) (arg_end a) (snd entry)"
      by (auto simp add: succeeded_def split: option.splits if_splits)
    from usable_prices [OF this] show ?thesis
      by (simp add: metrics_of_def prices_of_def Ticker_calculate_metrics)
  qed
  then have t: "map Ticker (map (metrics_of download a) (succeeded download a))
      = map fst (succeeded download a)"
    by simp
  have k: "map fst (map (\<lambda>entry. (fst entry, prices_of download a (snd entry)))
      (succeeded download a)) = map fst (succeeded download a)"
    by (simp add: comp_def)
  show ?thesis
    using m t k by (simp add: confirm_and_run_def exit_status_def)
qed

text \<open>
  Three tickers of which the second has no data, and the index: the two other tickers and
  the index are reported, in this order.  Two tickers for which the supplier raises: the
  run ends with nothing to analyze.
\<close>

theorem comparison_run_outputs_witness:
  "\<exists>results price_data.
     main (\<lambda>symbol s e.
             if symbol = ''AAA'' then Inr [100, 110]
             else if symbol = ''BBB'' then Inr []
             else if symbol = ''CCC'' then Inr [50, 60, 70]
             else if symbol = ''^GSPC'' then Inr [10, 11]
             else Inl DownloadFailed)
          \<lparr>arg_tickers = [''AAA'', ''BBB'', ''CCC''], arg_start = 2020, arg_end = 2024,
           arg_index = Some SP500, arg_output_dir = ''output''\<rparr>
       = Inr (Completed results price_data) \<and>
     map Ticker results = [''AAA'', ''CCC'', ''SP500''] \<and>
     price_data = [(''AAA'', [100, 110]), (''CCC'', [50, 60, 70]), (''SP500'', [10, 11])] \<and>
     main (\<lambda>symbol s e. Inl DownloadFailed)
          \<lparr>arg_tickers = [''AAA'', ''BBB''], arg_start = 2020, arg_end = 2024,
           arg_index = None, arg_output_dir = ''output''\<rparr>
       = Inr No_Data_To_Analyze"
  using comparison_run_outputs
    [of "\<lparr>arg_tickers = [''AAA'', ''BBB''], arg_start = 2020, arg_end = 2024,
          arg_index = None, arg_output_dir = ''output''\<rparr>"
        "\<lambda>symbol s e. Inl DownloadFailed"]
    comparison_run_outputs
    [of "\<lparr>arg_tickers = [''AAA'', ''BBB'', ''CCC''], arg_start = 2020, arg_end = 2024,
          arg_index = Some SP500, arg_output_dir = ''output''\<rparr>"
        "\<lambda>symbol s e.
             if symbol = ''AAA'' then Inr [100, 110]
             else if symbol = ''BBB'' then Inr []
             else if symbol = ''CCC'' then Inr [50, 60, 70]
             else if symbol = ''^GSPC'' then Inr [10, 11]
             else Inl DownloadFailed"]
  by (simp add: succeeded_def usable_def prices_of_def)

text \<open>
  C7 as stated fails in its last part: when the supplier has no data for any of the
  symbols, \<^verbatim>\<open>main\<close> returns normally after its message; no error is raised, the exit status
  is 0 and the launcher announces success.
\<close>

theorem all_symbols_failed_returns_normally:
  "main (\<lambda>symbol s e. Inr [])
        \<lparr>arg_tickers = [''AAA'', ''BBB'', ''CCC''], arg_start = 2020, arg_end = 2024,
         arg_index = Some SP500, arg_output_dir = ''output''\<rparr>
     = Inr No_Data_To_Analyze \<and>
   \<not> isl (main (\<lambda>symbol s e. Inr [])
        \<lparr>arg_tickers = [''AAA'', ''BBB'', ''CCC''], arg_start = 2020, arg_end = 2024,
         arg_index = Some SP500, arg_output_dir = ''output''\<rparr>) \<and>
   confirm_and_run (\<lambda>symbol s e. Inr [])
        \<lparr>arg_tickers = [''AAA'', ''BBB'', ''CCC''], arg_start = 2020, arg_end = 2024,
         arg_index = Some SP500, arg_output_dir = ''output''\<rparr>"
  by (simp add: confirm_and_run_def exit_status_def main_def index_step_def try_body_def
      fetch_data_def)

text \<open>
  C8.  For a non-empty series of positive prices the normalised series has the length of
  the series, its value at every position \<open>i\<close> is \<open>p\<^sub>i / p\<^sub>0 * 100\<close>, and its first value
  is 100.
\<close>

theorem normalized_elementwise:
  assumes "prices \<noteq> []" and "\<forall>p\<in>set prices. 0 < p"
  shows "\<exists>ns. normalized prices = Inr ns \<and> length ns = length prices \<and>
           (\<forall>i<length prices. ns ! i = prices ! i / prices ! 0 * 100) \<and>
           ns ! 0 = 100"
proof -
  from assms have p0: "prices ! 0 \<noteq> 0"
    by (cases prices) auto
  have n: "normalized prices = Inr (map (\<lambda>p. p / prices ! 0 * 100) prices)"
    using assms(1) by (cases prices) (simp_all add: normalized_def)
  have "0 < length prices"
    using assms(1) by simp
  then have "map (\<lambda>p. p / prices ! 0 * 100) prices ! 0 = 100"
    using p0 by (simp only: nth_map) simp
  then show ?thesis
    using n by simp
qed

theorem normalized_elementwise_witness:
  "\<exists>ns. normalized [100, 110, 99, 121] = Inr ns \<and> length ns = 4 \<and>
     ns = [100, 110, 99, 121] \<and> ns ! 0 = 100"
  using normalized_elementwise [of "[100, 110, 99, 121]"] by (simp add: normalized_def)

text \<open>
  C9, as the code has it.  For a series of at least two positive prices: the returned
  maximum drawdown is a number that is at most 0; the total return of the computation has the sign
  of \<open>p\<^sub>l\<^sub>a\<^sub>s\<^sub>t - p\<^sub>f\<^sub>i\<^sub>r\<^sub>s\<^sub>t\<close>, and the returned total return, which is that value rounded to
  two decimals, has this sign or is 0; for a strictly increasing series the returned
  maximum drawdown is 0.
\<close>

theorem drawdown_and_total_return_sign:
  assumes "2 \<le> length prices" and "\<forall>p\<in>set prices. 0 < p"
  shows "\<exists>m d. calculate_metrics prices name = Inr m \<and>
           Max_Drawdown m = Some d \<and> d \<le> 0 \<and>
           sgn (total_return prices) = sgn (last prices - hd prices) \<and>
           Total_Return m = py_round (total_return prices) 2 \<and>
           (Total_Return m = 0 \<or> sgn (Total_Return m) = sgn (last prices - hd prices)) \<and>
           (sorted_wrt (<) prices \<longrightarrow> Max_Drawdown m = Some 0)"
proof -
  from assms(1) have ne: "prices \<noteq> []"
    by auto
  obtain d where d: "max_drawdown prices = Some d" and "d \<le> 0"
    using max_drawdown_nonpos [OF assms] by blast
  then have d': "py_round d 2 \<le> 0"
    by (simp add: py_round_nonpos)
  have s: "sgn (total_return prices) = sgn (last prices - hd prices)"
    by (rule total_return_sgn [OF ne assms(2)])
  have t: "py_round (total_return prices) 2 = 0 \<or>
      sgn (py_round (total_return prices) 2) = sgn (last prices - hd prices)"
  proof (cases "total_return prices" "0::real" rule: linorder_cases)
    case less
    then have "py_round (total_return prices) 2 \<le> 0"
      by (simp add: py_round_nonpos)
    moreover from less s have "sgn (last prices - hd prices) = - 1"
      by simp
    ultimately show ?thesis
      by (auto simp add: sgn_if)
  next
    case equal
    then show ?thesis
      by (simp add: py_round_0)
  next
    case greater
    then have "0 \<le> py_round (total_return prices) 2"
      by (simp add: py_round_nonneg)
    moreover from greater s have "sgn (last prices - hd prices) = 1"
      by simp
    ultimately show ?thesis
      by (auto simp add: sgn_if)
  qed
  have z: "sorted_wrt (<) prices \<longrightarrow> py_round d 2 = 0"
  proof
    assume "sorted_wrt (<) prices"
    then have "sorted prices"
      by (rule sorted_wrt_mono_rel [rotated]) simp
    from max_drawdown_sorted [OF assms this] d show "py_round d 2 = 0"
      by (simp add: py_round_0)
  qed
  show ?thesis
    using d d' s t z by (simp add: calculate_metrics_Inr [OF ne])
qed

theorem drawdown_and_total_return_sign_witness:
  "(\<exists>m d. calculate_metrics [100, 110, 121] ''AAPL'' = Inr m \<and>
           Max_Drawdown m = Some d \<and> d \<le> 0 \<and>
           sgn (total_return [100, 110, 121])
             = sgn (last [100, 110, 121] - hd [100, 110, 121 :: real]) \<and>
           Total_Return m = py_round (total_return [100, 110, 121]) 2 \<and>
           (Total_Return m = 0 \<or>
            sgn (Total_Return m) = sgn (last [100, 110, 121] - hd [100, 110, 121 :: real])) \<and>
           Max_Drawdown m = Some 0) \<and>
   (\<exists>m d. calculate_metrics [120, 90] ''AAPL'' = Inr m \<and>
           Max_Drawdown m = Some d \<and> d \<le> 0 \<and>
           sgn (total_return [120, 90]) = - 1 \<and>
           (Total_Return m = 0 \<or> sgn (Total_Return m) = - 1))"
  using drawdown_and_total_return_sign [of "[100, 110, 121]" "''AAPL''"]
    drawdown_and_total_return_sign [of "[120, 90]" "''AAPL''"]
  by auto

text \<open>
  C9 as stated fails in its second part: on the series 100000, 100001 the last price is
  above the first, and the returned total return is 0.
\<close>

theorem tiny_gain_rounds_to_zero:
  "Total_Return (projr (calculate_metrics [100000, 100001] ''AAPL'')) = 0 \<and>
   sgn (Total_Return (projr (calculate_metrics [100000, 100001] ''AAPL'')))
     \<noteq> sgn (last [100000, 100001] - hd [100000, 100001 :: real])"
  by (simp add: calculate_metrics_def total_return_def py_round_def round_half_even_def)

text \<open>
  C10.  For a series of at least two positive prices and a positive factor \<open>c\<close>, the series
  with every price multiplied by \<open>c\<close> has the same total return, annualized return,
  volatility, maximum drawdown and Sharpe ratio, hence the same returned record, and the
  same normalised series.
\<close>

theorem price_scale_invariance:
  assumes "0 < c" and "2 \<le> length prices" and "\<forall>p\<in>set prices. 0 < p"
  shows "total_return (map ((*) c) prices) = total_return prices \<and>
         annualized_return (map ((*) c) prices) = annualized_return prices \<and>
         volatility (map ((*) c) prices) = volatility prices \<and>
         max_drawdown (map ((*) c) prices) = max_drawdown prices \<and>
         sharpe_ratio (map ((*) c) prices) = sharpe_ratio prices \<and>
         calculate_metrics (map ((*) c) prices) name = calculate_metrics prices name \<and>
         normalized (map ((*) c) prices) = normalized prices"
proof -
  from assms(1) have c: "c \<noteq> 0"
    by simp
  from assms(2) have ne: "prices \<noteq> []"
    by auto
  note r = daily_returns_scale [OF c, of prices]
  have t: "total_return (map ((*) c) prices) = total_return prices"
    by (rule total_return_scale [OF c ne])
  have a: "annualized_return (map ((*) c) prices) = annualized_return prices"
    by (simp add: annualized_return_def years_def t)
  have v: "volatility (map ((*) c) prices) = volatility prices"
    by (simp add: volatility_def r)
  have d: "max_drawdown (map ((*) c) prices) = max_drawdown prices"
    by (simp add: max_drawdown_def drawdown_def rolling_max_def cumulative_def r)
  have e: "excess_return (map ((*) c) prices) = excess_return prices"
    by (simp add: excess_return_def a)
  have s: "sharpe_ratio (map ((*) c) prices) = sharpe_ratio prices"
    by (simp add: sharpe_ratio_def e v split: option.split)
  have m: "calculate_metrics (map ((*) c) prices) name = calculate_metrics prices name"
    by (simp add: calculate_metrics_def t a v d s)
  show ?thesis
    using t a v d s m normalized_scale [OF c] by simp
qed

theorem price_scale_invariance_witness:
  "total_return (map ((*) 3) [100, 110, 99, 121]) = total_return [100, 110, 99, 121] \<and>
   annualized_return (map ((*) 3) [100, 110, 99, 121]) = annualized_return [100, 110, 99, 121] \<and>
   volatility (map ((*) 3) [100, 110, 99, 121]) = volatility [100, 110, 99, 121] \<and>
   max_drawdown (map ((*) 3) [100, 110, 99, 121]) = max_drawdown [100, 110, 99, 121] \<and>
   sharpe_ratio (map ((*) 3) [100, 110, 99, 121]) = sharpe_ratio [100, 110, 99, 121] \<and>
   calculate_metrics (map ((*) 3) [100, 110, 99, 121]) ''AAPL''
     = calculate_metrics [100, 110, 99, 121] ''AAPL'' \<and>
   normalized (map ((*) 3) [100, 110, 99, 121]) = normalized [100, 110, 99, 121]"
  using price_scale_invariance [of 3 "[100, 110, 99, 121]" "''AAPL''"] by simp

end
